theory Spec2Isabelle
  imports Complex_Main
begin

section \<open>The translation memory database of \<^verbatim>\<open>translate/storage/tm_db.py\<close>\<close>

text \<open>
  A shallow embedding of the class \<^verbatim>\<open>TMDB\<close>: the two tables of \<^verbatim>\<open>init_database\<close>, the
  insertion protocol of \<^verbatim>\<open>add_unit\<close> and \<^verbatim>\<open>add_store\<close>, and the fuzzy lookup of
  \<^verbatim>\<open>translate_unit\<close>.

  Conventions of the embedding.
  \<^item> Python strings are \<open>string\<close>; \<^verbatim>\<open>len\<close> is \<open>length\<close>, and \<^verbatim>\<open>encode("utf-8")\<close> of a string
    is the string itself (one notion of length, as for ASCII text). Python's \<^verbatim>\<open>None\<close> is
    \<open>None\<close> of an option type.
  \<^item> Python's floats are read as exact rationals: \<^verbatim>\<open>math.ceil\<close> and \<^verbatim>\<open>math.floor\<close> are
    \<open>ceiling\<close> and \<open>floor\<close>, and rounding errors of the float operations are not modelled.
    Float division by zero raises, as in Python.
  \<^item> Every exception is a value of \<open>exn\<close>; an operation returns \<open>(exn + 'a) \<times> connection\<close>,
    the result or the exception raised, and the connection as the call left it.
  \<^item> The sqlite3 connection is a pair of database states, the committed one and the one
    seen inside the open transaction; \<^verbatim>\<open>commit\<close> copies the second to the first and
    \<^verbatim>\<open>rollback\<close> the first to the second.
\<close>

subsection \<open>Exceptions\<close>

datatype exn =
    LanguageError string
  | IntegrityError
  | OperationalError
  | TypeError
  | AttributeError
  | ZeroDivisionError

subsection \<open>The schema of \<^verbatim>\<open>init_database\<close>\<close>

text \<open>
  \<^verbatim>\<open>sources (sid INTEGER PRIMARY KEY AUTOINCREMENT, text VARCHAR NOT NULL,
            context VARCHAR DEFAULT NULL, lang VARCHAR NOT NULL, length INTEGER NOT NULL)\<close>
  with \<^verbatim>\<open>UNIQUE INDEX sources_uniq_idx ON sources (text, context, lang)\<close>, and
  \<^verbatim>\<open>targets (tid INTEGER PRIMARY KEY AUTOINCREMENT, sid INTEGER NOT NULL, text VARCHAR NOT NULL,
            lang VARCHAR NOT NULL, length INTEGER NOT NULL, time INTEGER DEFAULT NULL)\<close>
  with \<^verbatim>\<open>UNIQUE INDEX targets_uniq_idx ON targets (sid, text, lang)\<close>.
  The only nullable column written by the code is \<^verbatim>\<open>sources.context\<close>.
\<close>

record source_row =
  src_sid :: nat
  src_text :: string
  src_context :: "string option"
  src_lang :: string
  src_length :: nat

record target_row =
  tgt_tid :: nat
  tgt_sid :: nat
  tgt_text :: string
  tgt_lang :: string
  tgt_length :: nat
  tgt_time :: int

text \<open>
  A database state: the rows of both tables in insertion order, and for each table the
  entry of \<^verbatim>\<open>sqlite_sequence\<close> that \<^verbatim>\<open>AUTOINCREMENT\<close> keeps (the largest key handed out).
\<close>

record database =
  sources :: "source_row list"
  targets :: "target_row list"
  sources_seq :: nat
  targets_seq :: nat

definition empty_database :: database where
  "empty_database = \<lparr>sources = [], targets = [], sources_seq = 0, targets_seq = 0\<rparr>"

text \<open>
  The connection. \<open>faults\<close> is the script of the storage's unexpected failures: each
  statement executed and each commit consumes the head of the list and raises
  \<open>OperationalError\<close> when it is \<open>True\<close>; an exhausted script means no further failure.
\<close>

record connection =
  committed :: database
  pending :: database
  faults :: "bool list"

definition fresh_connection :: connection where
  "fresh_connection = \<lparr>committed = empty_database, pending = empty_database, faults = []\<rparr>"

definition next_fault :: "connection \<Rightarrow> bool \<times> connection" where
  "next_fault c = (case faults c of [] \<Rightarrow> (False, c) | f # fs \<Rightarrow> (f, c\<lparr>faults := fs\<rparr>))"

definition commit :: "connection \<Rightarrow> (exn + unit) \<times> connection" where
  "commit c =
     (case next_fault c of
        (True, c1) \<Rightarrow> (Inl OperationalError, c1)
      | (False, c1) \<Rightarrow> (Inr (), c1\<lparr>committed := pending c1\<rparr>))"

definition rollback :: "connection \<Rightarrow> connection" where
  "rollback c = c\<lparr>pending := committed c\<rparr>"

subsection \<open>The three statements of \<^verbatim>\<open>add_unit\<close>\<close>

text \<open>
  SQLite's unique index treats NULL as distinct from every value, NULL included: a row
  whose context is NULL never conflicts.
\<close>

definition sources_uniq_conflict :: "source_row list \<Rightarrow> string \<Rightarrow> string option \<Rightarrow> string \<Rightarrow> bool" where
  "sources_uniq_conflict rows t ctx l =
     (case ctx of
        None \<Rightarrow> False
      | Some x \<Rightarrow> list_ex (\<lambda>r. src_text r = t \<and> src_context r = Some x \<and> src_lang r = l) rows)"

definition targets_uniq_conflict :: "target_row list \<Rightarrow> nat \<Rightarrow> string \<Rightarrow> string \<Rightarrow> bool" where
  "targets_uniq_conflict rows s t l =
     list_ex (\<lambda>r. tgt_sid r = s \<and> tgt_text r = t \<and> tgt_lang r = l) rows"

text \<open>\<^verbatim>\<open>AUTOINCREMENT\<close>: one more than the largest key in the table or ever handed out.\<close>

definition new_sid :: "database \<Rightarrow> nat" where
  "new_sid db = Suc (fold max (map src_sid (sources db)) (sources_seq db))"

definition new_tid :: "database \<Rightarrow> nat" where
  "new_tid db = Suc (fold max (map tgt_tid (targets db)) (targets_seq db))"

text \<open>
  \<^verbatim>\<open>INSERT INTO sources (text, context, lang, length) VALUES(?, ?, ?, ?)\<close>, returning
  \<^verbatim>\<open>cursor.lastrowid\<close>. A statement that fails changes nothing.
\<close>

definition insert_source ::
  "connection \<Rightarrow> string \<Rightarrow> string option \<Rightarrow> string \<Rightarrow> nat \<Rightarrow> (exn + nat) \<times> connection" where
  "insert_source c t ctx l n =
     (case next_fault c of
        (True, c1) \<Rightarrow> (Inl OperationalError, c1)
      | (False, c1) \<Rightarrow>
          (let db = pending c1 in
           if sources_uniq_conflict (sources db) t ctx l then (Inl IntegrityError, c1)
           else
             (let s = new_sid db;
                  row = \<lparr>src_sid = s, src_text = t, src_context = ctx, src_lang = l, src_length = n\<rparr>
              in (Inr s, c1\<lparr>pending := db\<lparr>sources := sources db @ [row], sources_seq := s\<rparr>\<rparr>))))"

text \<open>
  \<^verbatim>\<open>SELECT sid FROM sources WHERE text=? AND context=? and lang=?\<close> followed by
  \<^verbatim>\<open>fetchone()\<close>: the first matching row, or \<open>None\<close>. A NULL parameter matches no row,
  since \<^verbatim>\<open>context = NULL\<close> is never true.
\<close>

definition select_sid ::
  "connection \<Rightarrow> string \<Rightarrow> string option \<Rightarrow> string \<Rightarrow> (exn + nat option) \<times> connection" where
  "select_sid c t ctx l =
     (case next_fault c of
        (True, c1) \<Rightarrow> (Inl OperationalError, c1)
      | (False, c1) \<Rightarrow>
          (case ctx of
             None \<Rightarrow> (Inr None, c1)
           | Some x \<Rightarrow>
               (Inr (map_option src_sid
                      (find (\<lambda>r. src_text r = t \<and> src_context r = Some x \<and> src_lang r = l)
                         (sources (pending c1)))), c1)))"

text \<open>\<^verbatim>\<open>INSERT INTO targets (sid, text, lang, length, time) VALUES (?, ?, ?, ?, ?)\<close>.\<close>

definition insert_target ::
  "connection \<Rightarrow> nat \<Rightarrow> string \<Rightarrow> string \<Rightarrow> nat \<Rightarrow> int \<Rightarrow> (exn + unit) \<times> connection" where
  "insert_target c s t l n tm =
     (case next_fault c of
        (True, c1) \<Rightarrow> (Inl OperationalError, c1)
      | (False, c1) \<Rightarrow>
          (let db = pending c1 in
           if targets_uniq_conflict (targets db) s t l then (Inl IntegrityError, c1)
           else
             (let k = new_tid db;
                  row = \<lparr>tgt_tid = k, tgt_sid = s, tgt_text = t, tgt_lang = l, tgt_length = n,
                         tgt_time = tm\<rparr>
              in (Inr (), c1\<lparr>pending := db\<lparr>targets := targets db @ [row], targets_seq := k\<rparr>\<rparr>))))"

subsection \<open>\<^verbatim>\<open>add_unit\<close> and \<^verbatim>\<open>add_store\<close>\<close>

text \<open>
  What the code reads of a translation unit: \<^verbatim>\<open>unit.source\<close>, \<^verbatim>\<open>unit.target\<close> and the
  results of \<^verbatim>\<open>getcontext()\<close>, \<^verbatim>\<open>getsourcelanguage()\<close>, \<^verbatim>\<open>gettargetlanguage()\<close>,
  \<^verbatim>\<open>istranslatable()\<close> and \<^verbatim>\<open>istranslated()\<close>.
\<close>

record transunit =
  unit_source :: string
  unit_target :: string
  getcontext :: "string option"
  getsourcelanguage :: "string option"
  gettargetlanguage :: "string option"
  istranslatable :: bool
  istranslated :: bool

text \<open>Python's truth value of a language: \<^verbatim>\<open>None\<close> and the empty string are false.\<close>

definition truthy :: "string option \<Rightarrow> bool" where
  "truthy l = (case l of None \<Rightarrow> False | Some x \<Rightarrow> x \<noteq> [])"

text \<open>Lines 106 to 109: the unit's own language, when it has one, replaces the argument.\<close>

definition resolve_lang :: "string option \<Rightarrow> string option \<Rightarrow> string option" where
  "resolve_lang declared given = (if truthy declared then declared else given)"

text \<open>
  Lines 117 to 131, the inner \<^verbatim>\<open>try\<close> that finds the \<^verbatim>\<open>sid\<close>: insert the source row, and
  on \<open>IntegrityError\<close> select the existing row; unpacking \<^verbatim>\<open>(sid,) = None\<close> raises
  \<open>TypeError\<close>.
\<close>

definition source_step ::
  "connection \<Rightarrow> transunit \<Rightarrow> string \<Rightarrow> (exn + nat) \<times> connection" where
  "source_step c u source_lang =
     (case insert_source c (unit_source u) (getcontext u) source_lang (length (unit_source u)) of
        (Inr s, c1) \<Rightarrow> (Inr s, c1)
      | (Inl IntegrityError, c1) \<Rightarrow>
          (case select_sid c1 (unit_source u) (getcontext u) source_lang of
             (Inl e, c2) \<Rightarrow> (Inl e, c2)
           | (Inr None, c2) \<Rightarrow> (Inl TypeError, c2)
           | (Inr (Some s), c2) \<Rightarrow> (Inr s, c2))
      | (Inl e, c1) \<Rightarrow> (Inl e, c1))"

text \<open>Lines 132 to 141: insert the target row; an \<open>IntegrityError\<close> is passed over.\<close>

definition target_step ::
  "connection \<Rightarrow> transunit \<Rightarrow> nat \<Rightarrow> string \<Rightarrow> int \<Rightarrow> (exn + unit) \<times> connection" where
  "target_step c u s target_lang now =
     (case insert_target c s (unit_target u) target_lang (length (unit_target u)) now of
        (Inl IntegrityError, c1) \<Rightarrow> (Inr (), c1)
      | (Inl e, c1) \<Rightarrow> (Inl e, c1)
      | (Inr x, c1) \<Rightarrow> (Inr (), c1))"

text \<open>
  \<^verbatim>\<open>add_unit(unit, source_lang, target_lang, commit)\<close>; \<open>now\<close> is what \<^verbatim>\<open>int(time.time())\<close>
  returns. The two \<open>LanguageError\<close>s are raised before the outer \<^verbatim>\<open>try\<close>; inside it, any
  exception is raised again after a rollback when \<open>do_commit\<close> holds.
\<close>

definition add_unit ::
  "connection \<Rightarrow> transunit \<Rightarrow> string option \<Rightarrow> string option \<Rightarrow> bool \<Rightarrow> int
     \<Rightarrow> (exn + unit) \<times> connection" where
  "add_unit c u source_lang target_lang do_commit now =
     (case resolve_lang (getsourcelanguage u) source_lang of
        None \<Rightarrow> (Inl (LanguageError ''undefined source language''), c)
      | Some slang \<Rightarrow>
          if slang = [] then (Inl (LanguageError ''undefined source language''), c)
          else
            (case resolve_lang (gettargetlanguage u) target_lang of
               None \<Rightarrow> (Inl (LanguageError ''undefined target language''), c)
             | Some tlang \<Rightarrow>
                 if tlang = [] then (Inl (LanguageError ''undefined target language''), c)
                 else
                   (case source_step c u slang of
                      (Inl e, c1) \<Rightarrow> (Inl e, if do_commit then rollback c1 else c1)
                    | (Inr s, c1) \<Rightarrow>
                        (case target_step c1 u s tlang now of
                           (Inl e, c2) \<Rightarrow> (Inl e, if do_commit then rollback c2 else c2)
                         | (Inr x, c2) \<Rightarrow>
                             if do_commit then
                               (case commit c2 of
                                  (Inl e, c3) \<Rightarrow> (Inl e, rollback c3)
                                | (Inr y, c3) \<Rightarrow> (Inr (), c3))
                             else (Inr (), c2)))))"

text \<open>
  The loop of \<^verbatim>\<open>add_store\<close> over \<^verbatim>\<open>store.units\<close>: an exception of \<^verbatim>\<open>add_unit\<close> ends it.
  \<open>clock\<close> gives the readings of \<^verbatim>\<open>time.time()\<close> to come, in their order; each call of
  \<^verbatim>\<open>add_unit\<close> takes the next one.
\<close>

fun add_store_units ::
  "connection \<Rightarrow> transunit list \<Rightarrow> string option \<Rightarrow> string option \<Rightarrow> (nat \<Rightarrow> int)
     \<Rightarrow> (exn + unit) \<times> connection" where
  "add_store_units c [] source_lang target_lang clock = (Inr (), c)"
| "add_store_units c (u # us) source_lang target_lang clock =
     (if istranslatable u \<and> istranslated u then
        (case add_unit c u source_lang target_lang False (clock 0) of
           (Inl e, c1) \<Rightarrow> (Inl e, c1)
         | (Inr x, c1) \<Rightarrow> add_store_units c1 us source_lang target_lang (\<lambda>n. clock (Suc n)))
      else add_store_units c us source_lang target_lang clock)"

definition add_store ::
  "connection \<Rightarrow> transunit list \<Rightarrow> string option \<Rightarrow> string option \<Rightarrow> bool \<Rightarrow> (nat \<Rightarrow> int)
     \<Rightarrow> (exn + unit) \<times> connection" where
  "add_store c units source_lang target_lang do_commit clock =
     (case add_store_units c units source_lang target_lang clock of
        (Inl e, c1) \<Rightarrow> (Inl e, c1)
      | (Inr x, c1) \<Rightarrow> if do_commit then commit c1 else (Inr (), c1))"

subsection \<open>The length window\<close>

text \<open>
  \<^verbatim>\<open>math.ceil(max(length * (min_similarity/100.0), 2))\<close> and
  \<^verbatim>\<open>math.floor(min(length / (min_similarity/100.0), max_length))\<close>. The second divides by
  \<^verbatim>\<open>min_similarity/100.0\<close>, and Python raises \<open>ZeroDivisionError\<close> when that is zero.
\<close>

definition min_levenshtein_length :: "nat \<Rightarrow> rat \<Rightarrow> int" where
  "min_levenshtein_length n s = \<lceil>max (of_nat n * (s / 100)) 2\<rceil>"

definition max_levenshtein_length :: "nat \<Rightarrow> rat \<Rightarrow> rat \<Rightarrow> exn + int" where
  "max_levenshtein_length n s m =
     (if s / 100 = 0 then Inl ZeroDivisionError
      else Inr \<lfloor>min (of_nat n / (s / 100)) m\<rfloor>)"

subsection \<open>\<^verbatim>\<open>translate_unit\<close>\<close>

text \<open>
  The instance: its three settings and \<^verbatim>\<open>self.comparer\<close>. \<open>max_candidates\<close> is a count.
  The comparer is an object of \<^verbatim>\<open>translate.search.lshtein\<close>, a module that is not part of
  this file; the embedding takes its method \<^verbatim>\<open>similarity(a, b, stoppercentage)\<close> as a
  field of the instance.
\<close>

record tmdb =
  max_candidates :: nat
  min_similarity :: rat
  max_length :: rat
  comparer :: "string \<Rightarrow> string \<Rightarrow> rat \<Rightarrow> rat"

text \<open>
  \<^verbatim>\<open>source_langs\<close> and \<^verbatim>\<open>target_langs\<close> are a string or a list of strings; a list is
  replaced by \<^verbatim>\<open>','.join(list)\<close>.
\<close>

datatype langs = Tag string | Tags "string list"

fun join :: "string \<Rightarrow> string list \<Rightarrow> string" where
  "join sep [] = []"
| "join sep [x] = x"
| "join sep (x # y # ys) = x @ sep @ join sep (y # ys)"

definition join_langs :: "langs \<Rightarrow> string" where
  "join_langs ls = (case ls of Tag s \<Rightarrow> s | Tags xs \<Rightarrow> join '','' xs)"

text \<open>A row of the query: \<^verbatim>\<open>s.text, t.text, s.context, s.lang, t.lang\<close>.\<close>

record pair_row =
  row_source :: string
  row_target :: string
  row_context :: "string option"
  row_slang :: string
  row_tlang :: string

text \<open>
  \<^verbatim>\<open>SELECT ... FROM sources s JOIN targets t ON s.sid = t.sid WHERE s.lang IN (?) AND
  t.lang IN (?) AND s.length >= ? AND s.length <= ?\<close> with the four values bound. Each
  \<^verbatim>\<open>IN (?)\<close> has one bound value, a string, so it is an equality with that string.
  The query has no \<^verbatim>\<open>ORDER BY\<close>; the rows come here source by source, in the order of
  insertion.
\<close>

definition select_pairs :: "database \<Rightarrow> string \<Rightarrow> string \<Rightarrow> int \<Rightarrow> int \<Rightarrow> pair_row list" where
  "select_pairs db slangs tlangs minlen maxlen =
     [\<lparr>row_source = src_text s, row_target = tgt_text t, row_context = src_context s,
       row_slang = src_lang s, row_tlang = tgt_lang t\<rparr>.
        s \<leftarrow> sources db, t \<leftarrow> targets db,
        src_sid s = tgt_sid t \<and> src_lang s = slangs \<and> tgt_lang t = tlangs
          \<and> int (src_length s) \<ge> minlen \<and> int (src_length s) \<le> maxlen]"

definition execute_query ::
  "connection \<Rightarrow> string \<Rightarrow> string \<Rightarrow> int \<Rightarrow> int \<Rightarrow> (exn + pair_row list) \<times> connection" where
  "execute_query c slangs tlangs minlen maxlen =
     (case next_fault c of
        (True, c1) \<Rightarrow> (Inl OperationalError, c1)
      | (False, c1) \<Rightarrow> (Inr (select_pairs (pending c1) slangs tlangs minlen maxlen), c1))"

text \<open>The dictionary built for a row, with the keys source, target, context and quality.\<close>

record suggestion =
  res_source :: string
  res_target :: string
  res_context :: string
  quality :: rat

text \<open>
  The loop over the cursor (lines 175 to 182), \<open>results\<close> being the list built so far.
  \<^verbatim>\<open>row[2].encode("utf-8")\<close> raises \<open>AttributeError\<close> when the context is \<^verbatim>\<open>None\<close>.
\<close>

fun score_rows :: "tmdb \<Rightarrow> string \<Rightarrow> pair_row list \<Rightarrow> suggestion list \<Rightarrow> exn + suggestion list" where
  "score_rows tm usource [] results = Inr results"
| "score_rows tm usource (row # rows) results =
     (case row_context row of
        None \<Rightarrow> Inl AttributeError
      | Some ctx \<Rightarrow>
          (let result = \<lparr>res_source = row_source row, res_target = row_target row,
                         res_context = ctx,
                         quality = comparer tm usource (row_source row) (min_similarity tm)\<rparr>
           in score_rows tm usource rows
                (if quality result \<ge> min_similarity tm then results @ [result] else results)))"

text \<open>
  \<^verbatim>\<open>translate_unit(unit_source, source_langs, target_langs)\<close>. The sort is Python's stable
  sort on the key \<^verbatim>\<open>quality\<close> with \<^verbatim>\<open>reverse=True\<close>, which keeps the order of equal keys;
  \<^verbatim>\<open>results[:max_candidates]\<close> is \<open>take\<close>.
\<close>

definition translate_unit ::
  "tmdb \<Rightarrow> connection \<Rightarrow> string \<Rightarrow> langs \<Rightarrow> langs \<Rightarrow> (exn + suggestion list) \<times> connection" where
  "translate_unit tm c usource source_langs target_langs =
     (let slangs = join_langs source_langs;
          tlangs = join_langs target_langs;
          minlen = min_levenshtein_length (length usource) (min_similarity tm)
      in case max_levenshtein_length (length usource) (min_similarity tm) (max_length tm) of
           Inl e \<Rightarrow> (Inl e, c)
         | Inr maxlen \<Rightarrow>
             (case execute_query c slangs tlangs minlen maxlen of
                (Inl e, c1) \<Rightarrow> (Inl e, c1)
              | (Inr rows, c1) \<Rightarrow>
                  (case score_rows tm usource rows [] of
                     Inl e \<Rightarrow> (Inl e, c1)
                   | Inr results \<Rightarrow>
                       (Inr (take (max_candidates tm)
                               (sort_key (\<lambda>match. - quality match) results)), c1))))"

subsection \<open>The specification's formulas, the comparer's contract, and example values\<close>



text \<open>
  Modelled from the spec: the method \<^verbatim>\<open>similarity\<close> of \<^verbatim>\<open>LevenshteinComparer\<close>
  (\<^verbatim>\<open>translate/search/lshtein.py\<close>) is missing; the specification gives its interface,
  \<^verbatim>\<open>similarity(text_a, text_b, min_similarity) -> score in [0,100]\<close>.
\<close>

definition similarity_in_range :: "(string \<Rightarrow> string \<Rightarrow> rat \<Rightarrow> rat) \<Rightarrow> bool" where
  "similarity_in_range cmp = (\<forall>a b s. 0 \<le> cmp a b s \<and> cmp a b s \<le> 100)"

text \<open>
  The candidates as the specification describes them: the pairs whose source language is
  among \<open>source_langs\<close>, whose target language is among \<open>target_langs\<close> and whose stored
  source length is in the window.
\<close>

definition spec_candidates ::
  "database \<Rightarrow> string list \<Rightarrow> string list \<Rightarrow> int \<Rightarrow> int \<Rightarrow> pair_row list" where
  "spec_candidates db source_langs target_langs minlen maxlen =
     [\<lparr>row_source = src_text s, row_target = tgt_text t, row_context = src_context s,
       row_slang = src_lang s, row_tlang = tgt_lang t\<rparr>.
        s \<leftarrow> sources db, t \<leftarrow> targets db,
        src_sid s = tgt_sid t \<and> src_lang s \<in> set source_langs \<and> tgt_lang t \<in> set target_langs
          \<and> int (src_length s) \<ge> minlen \<and> int (src_length s) \<le> maxlen]"

text \<open>
  The invariants of the data model as the specification states them: no two rows of a
  table share the triple of its unique index.
\<close>

definition spec_sources_unique :: "source_row list \<Rightarrow> bool" where
  "spec_sources_unique rows = distinct (map (\<lambda>r. (src_text r, src_context r, src_lang r)) rows)"

definition targets_unique :: "target_row list \<Rightarrow> bool" where
  "targets_unique rows = distinct (map (\<lambda>r. (tgt_sid r, tgt_text r, tgt_lang r)) rows)"

text \<open>What the unique index of \<^verbatim>\<open>sources\<close> enforces: the same, for the rows with a context.\<close>

definition sources_unique :: "source_row list \<Rightarrow> bool" where
  "sources_unique rows =
     distinct (map (\<lambda>r. (src_text r, src_context r, src_lang r))
                (filter (\<lambda>r. src_context r \<noteq> None) rows))"

definition store_unique :: "database \<Rightarrow> bool" where
  "store_unique db = (sources_unique (sources db) \<and> targets_unique (targets db))"

text \<open>
  The settings \<^verbatim>\<open>__init__\<close> has by default (\<^verbatim>\<open>max_candidates=3, min_similarity=75,
  max_length=1000\<close>), and a comparer for the examples, which knows equal strings only.
\<close>

definition default_tmdb :: "(string \<Rightarrow> string \<Rightarrow> rat \<Rightarrow> rat) \<Rightarrow> tmdb" where
  "default_tmdb cmp =
     \<lparr>max_candidates = 3, min_similarity = 75, max_length = 1000, comparer = cmp\<rparr>"

definition exact_comparer :: "string \<Rightarrow> string \<Rightarrow> rat \<Rightarrow> rat" where
  "exact_comparer a b s = (if a = b then 100 else 0)"

text \<open>The unit of the round trip, with the context \<open>ctx\<close> and no language of its own.\<close>

definition hello_unit :: "string option \<Rightarrow> transunit" where
  "hello_unit ctx =
     \<lparr>unit_source = ''Hello world'', unit_target = ''Bonjour le monde'', getcontext = ctx,
      getsourcelanguage = None, gettargetlanguage = None,
      istranslatable = True, istranslated = True\<rparr>"

text \<open>
  The store of the examples: a new database into which \<^verbatim>\<open>add_unit\<close> has put the unit of the
  round trip with the empty context, from English to French, and the same with no context.
\<close>

definition hello_connection :: connection where
  "hello_connection =
     snd (add_unit fresh_connection (hello_unit (Some [])) (Some ''en'') (Some ''fr'') True 0)"

definition hello_null_connection :: connection where
  "hello_null_connection =
     snd (add_unit fresh_connection (hello_unit None) (Some ''en'') (Some ''fr'') True 0)"

text \<open>The second call of \<^verbatim>\<open>add_unit\<close> for the unit with no context.\<close>

definition hello_null_again :: "(exn + unit) \<times> connection" where
  "hello_null_again =
     add_unit hello_null_connection (hello_unit None) (Some ''en'') (Some ''fr'') True 0"

text \<open>A connection whose third statement fails, and a document of two units.\<close>

definition failing_connection :: connection where
  "failing_connection = fresh_connection\<lparr>faults := [False, False, True]\<rparr>"

definition two_units :: "transunit list" where
  "two_units =
     [hello_unit (Some []),
      (hello_unit (Some []))\<lparr>unit_source := ''Good night'', unit_target := ''Bonne nuit''\<rparr>]"

text \<open>The call of \<^verbatim>\<open>add_store\<close> on them, with commit, and what it leaves.\<close>

definition failed_batch :: "(exn + unit) \<times> connection" where
  "failed_batch =
     add_store failing_connection two_units (Some ''en'') (Some ''fr'') True (\<lambda>n. int n)"

section \<open>The length window (C7)\<close>




section \<open>Undefined languages (C4)\<close>

text \<open>
  C4. When neither the unit's own source language nor the argument gives a source
  language, or neither gives a target language, \<^verbatim>\<open>add_unit\<close> raises \<open>LanguageError\<close> with
  the message naming the undefined side (the source side when both are undefined), and
  the connection, with both tables, is as it was before the call.
\<close>

theorem add_unit_undefined_language:
  assumes "\<not> truthy (resolve_lang (getsourcelanguage u) source_lang)
         \<or> \<not> truthy (resolve_lang (gettargetlanguage u) target_lang)"
  shows "add_unit c u source_lang target_lang do_commit now =
           (Inl (LanguageError
                  (if \<not> truthy (resolve_lang (getsourcelanguage u) source_lang)
                   then ''undefined source language'' else ''undefined target language'')), c)"
  using assms by (auto simp: add_unit_def truthy_def split: option.splits)

theorem add_unit_undefined_language_witness:
  "\<not> truthy (resolve_lang (getsourcelanguage (hello_unit None)) None)
   \<and> add_unit fresh_connection (hello_unit None) None (Some ''fr'') True 0 =
       (Inl (LanguageError ''undefined source language''), fresh_connection)
   \<and> truthy (resolve_lang (getsourcelanguage (hello_unit None)) (Some ''en''))
   \<and> \<not> truthy (resolve_lang (gettargetlanguage (hello_unit None)) (Some ''''))
   \<and> add_unit fresh_connection (hello_unit None) (Some ''en'') (Some '''') True 0 =
       (Inl (LanguageError ''undefined target language''), fresh_connection)"
  using add_unit_undefined_language
          [of "hello_unit None" None "Some ''fr''" fresh_connection True 0]
        add_unit_undefined_language
          [of "hello_unit None" "Some ''en''" "Some ''''" fresh_connection True 0]
  by (simp add: truthy_def resolve_lang_def hello_unit_def)

section \<open>The examples, evaluated\<close>

lemma translate_hello:
  "translate_unit (default_tmdb exact_comparer) hello_connection ''Hello world''
     (Tags [''en'']) (Tags [''fr'']) =
     (Inr [\<lparr>res_source = ''Hello world'', res_target = ''Bonjour le monde'',
            res_context = [], quality = 100\<rparr>], hello_connection)"
  by code_simp

lemma window_hello:
  "max_levenshtein_length (length ''Hello world'')
     (min_similarity (default_tmdb exact_comparer)) (max_length (default_tmdb exact_comparer)) =
     Inr 14"
  by code_simp

lemma query_hello_null:
  "execute_query hello_null_connection (join_langs (Tags [''en''])) (join_langs (Tags [''fr'']))
     (min_levenshtein_length (length ''Hello world'')
        (min_similarity (default_tmdb exact_comparer))) 14 =
     (Inr [\<lparr>row_source = ''Hello world'', row_target = ''Bonjour le monde'',
            row_context = None, row_slang = ''en'', row_tlang = ''fr''\<rparr>],
      hello_null_connection)"
  by code_simp

lemma failed_batch_raises: "fst failed_batch = Inl OperationalError"
  by code_simp

lemma failed_batch_pending:
  "map src_text (sources (pending (snd failed_batch))) = [''Hello world'']"
  by code_simp

lemma exact_comparer_in_range: "similarity_in_range exact_comparer"
  by (simp add: similarity_in_range_def exact_comparer_def)

section \<open>What a call without commit leaves committed\<close>

lemma next_fault_committed: "next_fault c = (f, c1) \<Longrightarrow> committed c1 = committed c"
  by (auto simp: next_fault_def split: list.splits)

lemma insert_source_committed:
  "insert_source c t ctx l n = (r, c1) \<Longrightarrow> committed c1 = committed c"
  by (auto simp: insert_source_def Let_def split: prod.splits bool.splits if_splits
        dest: next_fault_committed)

lemma select_sid_committed: "select_sid c t ctx l = (r, c1) \<Longrightarrow> committed c1 = committed c"
  by (auto simp: select_sid_def split: prod.splits bool.splits option.splits
        dest: next_fault_committed)

lemma insert_target_committed:
  "insert_target c s t l n tm = (r, c1) \<Longrightarrow> committed c1 = committed c"
  by (auto simp: insert_target_def Let_def split: prod.splits bool.splits if_splits
        dest: next_fault_committed)

lemma source_step_committed: "source_step c u l = (r, c1) \<Longrightarrow> committed c1 = committed c"
  by (auto simp: source_step_def split: prod.splits sum.splits exn.splits option.splits
        dest!: insert_source_committed select_sid_committed)

lemma target_step_committed:
  "target_step c u s l now = (r, c1) \<Longrightarrow> committed c1 = committed c"
  by (auto simp: target_step_def split: prod.splits sum.splits exn.splits
        dest!: insert_target_committed)

lemma add_unit_no_commit_committed:
  "add_unit c u source_lang target_lang False now = (r, c1) \<Longrightarrow> committed c1 = committed c"
  by (auto simp: add_unit_def split: option.splits if_splits prod.splits sum.splits
        dest!: source_step_committed target_step_committed)

lemma add_store_units_committed:
  "add_store_units c us source_lang target_lang clock = (r, c1) \<Longrightarrow> committed c1 = committed c"
proof (induction us arbitrary: c clock)
  case Nil
  then show ?case by simp
next
  case (Cons u us)
  show ?case
  proof (cases "istranslatable u \<and> istranslated u")
    case False
    with Cons show ?thesis by auto
  next
    case True
    obtain r0 c0 where first: "add_unit c u source_lang target_lang False (clock 0) = (r0, c0)"
      by (cases "add_unit c u source_lang target_lang False (clock 0)")
    then have kept: "committed c0 = committed c"
      by (rule add_unit_no_commit_committed)
    show ?thesis
    proof (cases r0)
      case (Inl e)
      with Cons.prems True first kept show ?thesis by simp
    next
      case (Inr x)
      with Cons.prems True first
      have "add_store_units c0 us source_lang target_lang (\<lambda>n. clock (Suc n)) = (r, c1)"
        by simp
      then have "committed c1 = committed c0" by (rule Cons.IH)
      with kept show ?thesis by simp
    qed
  qed
qed

lemma commit_result:
  "commit c = (r, c1) \<Longrightarrow>
     (case r of Inl e \<Rightarrow> committed c1 = committed c | Inr x \<Rightarrow> committed c1 = pending c1)"
  by (auto simp: commit_def next_fault_def split: list.splits bool.splits)

section \<open>Batch atomicity (C3)\<close>

text \<open>
  C3. When \<^verbatim>\<open>add_store(document, source_lang, target_lang, commit=True)\<close> raises, whatever
  the exception and whichever unit raised it, the committed database is the one from
  before the call: no row of the document is committed. When it returns, the committed
  database is the whole state of the transaction, with every row the batch inserted.
\<close>

theorem add_store_all_or_nothing:
  assumes "add_store c units source_lang target_lang True clock = (r, c1)"
  shows "case r of Inl e \<Rightarrow> committed c1 = committed c | Inr x \<Rightarrow> committed c1 = pending c1"
proof -
  obtain r0 c0 where loop: "add_store_units c units source_lang target_lang clock = (r0, c0)"
    by (cases "add_store_units c units source_lang target_lang clock")
  then have kept: "committed c0 = committed c"
    by (rule add_store_units_committed)
  show ?thesis
  proof (cases r0)
    case (Inl e)
    with assms loop kept show ?thesis by (auto simp: add_store_def)
  next
    case (Inr x)
    with assms loop have "commit c0 = (r, c1)" by (simp add: add_store_def)
    from commit_result [OF this] kept show ?thesis by (simp split: sum.splits)
  qed
qed

theorem add_store_all_or_nothing_witness:
  "fst failed_batch = Inl OperationalError
   \<and> committed (snd failed_batch) = committed failing_connection
   \<and> map src_text (sources (pending (snd failed_batch))) = [''Hello world'']"
proof -
  have "add_store failing_connection two_units (Some ''en'') (Some ''fr'') True (\<lambda>n. int n) =
          (fst failed_batch, snd failed_batch)"
    by (simp add: failed_batch_def)
  from add_store_all_or_nothing [OF this] failed_batch_raises failed_batch_pending
  show ?thesis by simp
qed

text \<open>
  \<^verbatim>\<open>add_store\<close> does not roll back. The row that the failed call above inserted stays in
  the open transaction, and the commit of a later call on the same connection commits it.
\<close>

lemma failed_batch_then_commit:
  "map src_text (sources (committed (snd
     (add_unit (snd failed_batch)
        ((hello_unit (Some []))\<lparr>unit_source := ''Good night'', unit_target := ''Bonne nuit''\<rparr>)
        (Some ''en'') (Some ''fr'') True 0)))) =
     [''Hello world'', ''Good night'']"
  by code_simp

section \<open>The results of \<^verbatim>\<open>translate_unit\<close> (C5, C6, C10)\<close>

lemma score_rows_quality:
  "score_rows tm q rows acc = Inr rs \<Longrightarrow>
     \<forall>r \<in> set acc. min_similarity tm \<le> quality r
        \<and> (\<exists>a. quality r = comparer tm q a (min_similarity tm)) \<Longrightarrow>
     \<forall>r \<in> set rs. min_similarity tm \<le> quality r
        \<and> (\<exists>a. quality r = comparer tm q a (min_similarity tm))"
proof (induction rows arbitrary: acc)
  case Nil
  then show ?case by simp
next
  case (Cons row rows)
  from Cons.prems(1) obtain ctx where ctx: "row_context row = Some ctx"
    by (cases "row_context row") simp_all
  define result where
    "result = \<lparr>res_source = row_source row, res_target = row_target row, res_context = ctx,
               quality = comparer tm q (row_source row) (min_similarity tm)\<rparr>"
  define acc' where
    "acc' = (if quality result \<ge> min_similarity tm then acc @ [result] else acc)"
  from Cons.prems(1) ctx have step: "score_rows tm q rows acc' = Inr rs"
    by (auto simp: Let_def acc'_def result_def split: if_splits)
  have "quality result = comparer tm q (row_source row) (min_similarity tm)"
    by (simp add: result_def)
  then have "\<forall>r \<in> set acc'. min_similarity tm \<le> quality r
               \<and> (\<exists>a. quality r = comparer tm q a (min_similarity tm))"
    using Cons.prems(2) unfolding acc'_def by auto
  with step show ?case by (rule Cons.IH)
qed

lemma translate_unit_results:
  assumes "translate_unit tm c q sls tls = (Inr rs, c1)"
  shows "\<exists>rows maxlen results.
           max_levenshtein_length (length q) (min_similarity tm) (max_length tm) = Inr maxlen
         \<and> execute_query c (join_langs sls) (join_langs tls)
              (min_levenshtein_length (length q) (min_similarity tm)) maxlen = (Inr rows, c1)
         \<and> score_rows tm q rows [] = Inr results
         \<and> rs = take (max_candidates tm) (sort_key (\<lambda>match. - quality match) results)"
proof -
  obtain maxlen where
    window: "max_levenshtein_length (length q) (min_similarity tm) (max_length tm) = Inr maxlen"
    using assms
    by (cases "max_levenshtein_length (length q) (min_similarity tm) (max_length tm)")
       (simp_all add: translate_unit_def Let_def)
  obtain qr c0 where
    query: "execute_query c (join_langs sls) (join_langs tls)
              (min_levenshtein_length (length q) (min_similarity tm)) maxlen = (qr, c0)"
    by (cases "execute_query c (join_langs sls) (join_langs tls)
              (min_levenshtein_length (length q) (min_similarity tm)) maxlen")
  from assms window query obtain rows where qr: "qr = Inr rows"
    by (cases qr) (simp_all add: translate_unit_def Let_def)
  from assms window query qr obtain results where scored: "score_rows tm q rows [] = Inr results"
    by (cases "score_rows tm q rows []") (simp_all add: translate_unit_def Let_def)
  from assms window query qr scored have "c0 = c1"
    and "rs = take (max_candidates tm) (sort_key (\<lambda>match. - quality match) results)"
    by (simp_all add: translate_unit_def Let_def)
  with window query qr scored show ?thesis by blast
qed

text \<open>
  C5. Every record that \<^verbatim>\<open>translate_unit\<close> returns has a quality of at least
  \<open>min_similarity\<close>, by the test of line 181, and of at most 100, by the contract of the
  comparer.
\<close>

theorem translate_unit_quality_bounds:
  assumes "similarity_in_range (comparer tm)"
    and "translate_unit tm c q sls tls = (Inr rs, c1)"
    and "r \<in> set rs"
  shows "min_similarity tm \<le> quality r \<and> quality r \<le> 100"
proof -
  from translate_unit_results [OF assms(2)] obtain rows results where
    scored: "score_rows tm q rows [] = Inr results" and
    rs: "rs = take (max_candidates tm) (sort_key (\<lambda>match. - quality match) results)"
    by blast
  from rs assms(3) have "r \<in> set results"
    by (auto dest: in_set_takeD)
  with score_rows_quality [OF scored] have
    "min_similarity tm \<le> quality r \<and> (\<exists>a. quality r = comparer tm q a (min_similarity tm))"
    by simp
  with assms(1) show ?thesis
    by (auto simp: similarity_in_range_def)
qed

theorem translate_unit_quality_bounds_witness:
  "similarity_in_range (comparer (default_tmdb exact_comparer))
   \<and> translate_unit (default_tmdb exact_comparer) hello_connection ''Hello world''
       (Tags [''en'']) (Tags [''fr'']) =
       (Inr [\<lparr>res_source = ''Hello world'', res_target = ''Bonjour le monde'',
              res_context = [], quality = 100\<rparr>], hello_connection)
   \<and> min_similarity (default_tmdb exact_comparer) \<le> 100"
  using translate_unit_quality_bounds
          [of "default_tmdb exact_comparer" hello_connection "''Hello world''"
              "Tags [''en'']" "Tags [''fr'']"
              "[\<lparr>res_source = ''Hello world'', res_target = ''Bonjour le monde'',
                 res_context = [], quality = 100\<rparr>]"
              hello_connection
              "\<lparr>res_source = ''Hello world'', res_target = ''Bonjour le monde'',
                res_context = [], quality = 100\<rparr>"]
        translate_hello exact_comparer_in_range
  by (simp add: default_tmdb_def)



lemma score_rows_null_context:
  "list_ex (\<lambda>row. row_context row = None) rows \<Longrightarrow>
     score_rows tm q rows acc = Inl AttributeError"
proof (induction rows arbitrary: acc)
  case Nil
  then show ?case by simp
next
  case (Cons row rows)
  show ?case
  proof (cases "row_context row")
    case None
    then show ?thesis by simp
  next
    case (Some ctx)
    with Cons.prems have "list_ex (\<lambda>row. row_context row = None) rows" by simp
    then show ?thesis using Some by (simp add: Let_def Cons.IH)
  qed
qed

lemma score_rows_no_null_context:
  "\<not> list_ex (\<lambda>row. row_context row = None) rows \<Longrightarrow>
     \<exists>rs. score_rows tm q rows acc = Inr rs"
proof (induction rows arbitrary: acc)
  case Nil
  then show ?case by simp
next
  case (Cons row rows)
  then obtain ctx where "row_context row = Some ctx"
    and "\<not> list_ex (\<lambda>row. row_context row = None) rows"
    by (cases "row_context row") simp_all
  then show ?case by (simp add: Let_def Cons.IH)
qed

text \<open>
  C10. When \<^verbatim>\<open>translate_unit\<close> returns a sequence, the window was computed, the query
  returned its rows, and none of the rows selected has the context NULL. When one of
  the rows selected has the context NULL, \<^verbatim>\<open>translate_unit\<close> raises \<open>AttributeError\<close>
  (from \<^verbatim>\<open>row[2].encode\<close>, while it builds the record of that row) and returns no record.
\<close>

theorem translate_unit_null_context:
  "(translate_unit tm c q sls tls = (Inr rs, c1) \<longrightarrow>
      (\<exists>maxlen rows.
         max_levenshtein_length (length q) (min_similarity tm) (max_length tm) = Inr maxlen
       \<and> execute_query c (join_langs sls) (join_langs tls)
            (min_levenshtein_length (length q) (min_similarity tm)) maxlen = (Inr rows, c1)
       \<and> \<not> list_ex (\<lambda>row. row_context row = None) rows))
   \<and> (max_levenshtein_length (length q) (min_similarity tm) (max_length tm) = Inr maxlen'
        \<and> execute_query c (join_langs sls) (join_langs tls)
             (min_levenshtein_length (length q) (min_similarity tm)) maxlen' = (Inr rows', c1')
        \<and> list_ex (\<lambda>row. row_context row = None) rows' \<longrightarrow>
      translate_unit tm c q sls tls = (Inl AttributeError, c1'))"
proof (intro conjI impI)
  assume "translate_unit tm c q sls tls = (Inr rs, c1)"
  from translate_unit_results [OF this] obtain rows maxlen results where
    window: "max_levenshtein_length (length q) (min_similarity tm) (max_length tm) = Inr maxlen"
    and query: "execute_query c (join_langs sls) (join_langs tls)
            (min_levenshtein_length (length q) (min_similarity tm)) maxlen = (Inr rows, c1)"
    and scored: "score_rows tm q rows [] = Inr results"
    by blast
  from scored have "\<not> list_ex (\<lambda>row. row_context row = None) rows"
    using score_rows_null_context [of rows tm q "[]"] by auto
  with window query
  show "\<exists>maxlen rows.
         max_levenshtein_length (length q) (min_similarity tm) (max_length tm) = Inr maxlen
       \<and> execute_query c (join_langs sls) (join_langs tls)
            (min_levenshtein_length (length q) (min_similarity tm)) maxlen = (Inr rows, c1)
       \<and> \<not> list_ex (\<lambda>row. row_context row = None) rows"
    by blast
next
  assume given:
    "max_levenshtein_length (length q) (min_similarity tm) (max_length tm) = Inr maxlen'
     \<and> execute_query c (join_langs sls) (join_langs tls)
          (min_levenshtein_length (length q) (min_similarity tm)) maxlen' = (Inr rows', c1')
     \<and> list_ex (\<lambda>row. row_context row = None) rows'"
  then have "score_rows tm q rows' [] = Inl AttributeError"
    by (simp add: score_rows_null_context)
  with given show "translate_unit tm c q sls tls = (Inl AttributeError, c1')"
    by (simp add: translate_unit_def Let_def)
qed

theorem translate_unit_null_context_witness:
  "translate_unit (default_tmdb exact_comparer) hello_connection ''Hello world''
       (Tags [''en'']) (Tags [''fr'']) =
       (Inr [\<lparr>res_source = ''Hello world'', res_target = ''Bonjour le monde'',
              res_context = [], quality = 100\<rparr>], hello_connection)
   \<and> max_levenshtein_length (length ''Hello world'')
       (min_similarity (default_tmdb exact_comparer)) (max_length (default_tmdb exact_comparer)) =
       Inr 14
   \<and> execute_query hello_null_connection (join_langs (Tags [''en''])) (join_langs (Tags [''fr'']))
       (min_levenshtein_length (length ''Hello world'')
          (min_similarity (default_tmdb exact_comparer))) 14 =
       (Inr [\<lparr>row_source = ''Hello world'', row_target = ''Bonjour le monde'',
              row_context = None, row_slang = ''en'', row_tlang = ''fr''\<rparr>],
        hello_null_connection)
   \<and> (\<exists>maxlen rows.
         execute_query hello_connection (join_langs (Tags [''en''])) (join_langs (Tags [''fr'']))
           (min_levenshtein_length (length ''Hello world'')
              (min_similarity (default_tmdb exact_comparer))) maxlen = (Inr rows, hello_connection)
         \<and> \<not> list_ex (\<lambda>row. row_context row = None) rows)
   \<and> translate_unit (default_tmdb exact_comparer) hello_null_connection ''Hello world''
       (Tags [''en'']) (Tags [''fr'']) = (Inl AttributeError, hello_null_connection)"
  using translate_unit_null_context
          [of "default_tmdb exact_comparer" hello_connection "''Hello world''"
              "Tags [''en'']" "Tags [''fr'']"
              "[\<lparr>res_source = ''Hello world'', res_target = ''Bonjour le monde'',
                 res_context = [], quality = 100\<rparr>]"
              hello_connection 14 "[]" hello_connection]
        translate_unit_null_context
          [of "default_tmdb exact_comparer" hello_null_connection "''Hello world''"
              "Tags [''en'']" "Tags [''fr'']" "[]" hello_null_connection 14
              "[\<lparr>row_source = ''Hello world'', row_target = ''Bonjour le monde'',
                 row_context = None, row_slang = ''en'', row_tlang = ''fr''\<rparr>]"
              hello_null_connection]
        translate_hello window_hello query_hello_null
  by auto

section \<open>Statements on a connection without failures\<close>

lemma next_fault_none: "faults c = [] \<Longrightarrow> next_fault c = (False, c)"
  by (simp add: next_fault_def)

lemma insert_source_frame:
  assumes "insert_source c t ctx l n = (r, c1)"
  shows "targets (pending c1) = targets (pending c)" and "faults c = [] \<Longrightarrow> faults c1 = []"
  using assms
  by (auto simp: insert_source_def next_fault_def Let_def split: list.splits bool.splits if_splits)

lemma select_sid_frame:
  assumes "select_sid c t ctx l = (r, c1)"
  shows "pending c1 = pending c" and "faults c = [] \<Longrightarrow> faults c1 = []"
  using assms
  by (auto simp: select_sid_def next_fault_def split: list.splits bool.splits option.splits)

lemma source_step_frame:
  assumes "source_step c u l = (r, c1)"
  shows "targets (pending c1) = targets (pending c)" and "faults c = [] \<Longrightarrow> faults c1 = []"
proof -
  obtain r0 c0 where ins: "insert_source c (unit_source u) (getcontext u) l (length (unit_source u)) = (r0, c0)"
    by (cases "insert_source c (unit_source u) (getcontext u) l (length (unit_source u))")
  note f0 = insert_source_frame [OF ins]
  obtain r2 c2 where sel: "select_sid c0 (unit_source u) (getcontext u) l = (r2, c2)"
    by (cases "select_sid c0 (unit_source u) (getcontext u) l")
  note f2 = select_sid_frame [OF sel]
  from assms ins sel have "c1 = c0 \<or> c1 = c2"
    by (auto simp: source_step_def split: sum.splits exn.splits option.splits)
  with f0 f2 show "targets (pending c1) = targets (pending c)" and "faults c = [] \<Longrightarrow> faults c1 = []"
    by auto
qed

lemma target_step_conflict:
  assumes "faults c = []" and "targets_uniq_conflict (targets (pending c)) s (unit_target u) l"
  shows "target_step c u s l now = (Inr (), c)"
  using assms by (simp add: target_step_def insert_target_def next_fault_none)

lemma commit_none: "faults c = [] \<Longrightarrow> commit c = (Inr (), c\<lparr>committed := pending c\<rparr>)"
  by (simp add: commit_def next_fault_none)

lemma filter_key_once:
  "distinct (map f xs) \<Longrightarrow> list_ex (\<lambda>x. f x = k) xs \<Longrightarrow> length (filter (\<lambda>x. f x = k) xs) = 1"
proof (induction xs)
  case Nil
  then show ?case by simp
next
  case (Cons x xs)
  show ?case
  proof (cases "f x = k")
    case True
    from Cons.prems(1) have "f x \<notin> f ` set xs" by simp
    with True have "\<forall>y \<in> set xs. f y \<noteq> k" by blast
    then have "filter (\<lambda>x. f x = k) xs = []"
      by (simp add: filter_empty_conv)
    with True show ?thesis by simp
  next
    case False
    with Cons show ?thesis by simp
  qed
qed

lemma target_key_once:
  assumes "targets_unique rows" and "targets_uniq_conflict rows s t l"
  shows "length (filter (\<lambda>r. tgt_sid r = s \<and> tgt_text r = t \<and> tgt_lang r = l) rows) = 1"
proof -
  have "list_ex (\<lambda>r. (tgt_sid r, tgt_text r, tgt_lang r) = (s, t, l)) rows"
    using assms(2) by (simp add: targets_uniq_conflict_def)
  with assms(1) have "length (filter (\<lambda>r. (tgt_sid r, tgt_text r, tgt_lang r) = (s, t, l)) rows) = 1"
    unfolding targets_unique_def by (rule filter_key_once)
  then show ?thesis by simp
qed

lemma add_unit_target_there:
  assumes "faults c = []"
    and "resolve_lang (getsourcelanguage u) source_lang = Some slang" and "slang \<noteq> []"
    and "resolve_lang (gettargetlanguage u) target_lang = Some tlang" and "tlang \<noteq> []"
    and "source_step c u slang = (Inr s, c1)"
    and "targets_uniq_conflict (targets (pending c1)) s (unit_target u) tlang"
    and "targets_unique (targets (pending c))"
  shows "\<exists>c2. add_unit c u source_lang target_lang do_commit now = (Inr (), c2)
            \<and> targets (pending c2) = targets (pending c)
            \<and> length (filter (\<lambda>r. tgt_sid r = s \<and> tgt_text r = unit_target u \<and> tgt_lang r = tlang)
                        (targets (pending c2))) = 1"
proof -
  note frame = source_step_frame [OF assms(6)]
  from frame(2) assms(1) have nofault: "faults c1 = []" by simp
  from target_step_conflict [OF nofault assms(7)]
  have tgt: "target_step c1 u s tlang now = (Inr (), c1)" .
  define c2 where "c2 = (if do_commit then c1\<lparr>committed := pending c1\<rparr> else c1)"
  have call: "add_unit c u source_lang target_lang do_commit now = (Inr (), c2)"
    using assms(2-6) tgt commit_none [OF nofault]
    by (simp add: add_unit_def c2_def)
  have same: "targets (pending c2) = targets (pending c)"
    using frame(1) by (simp add: c2_def)
  from assms(7) frame(1) have "targets_uniq_conflict (targets (pending c)) s (unit_target u) tlang"
    by simp
  from target_key_once [OF assms(8) this] same call show ?thesis
    by simp
qed

section \<open>The exceptions that leave \<^verbatim>\<open>add_unit\<close>\<close>

text \<open>An \<open>IntegrityError\<close> never leaves \<^verbatim>\<open>add_unit\<close>, whatever the storage does.\<close>

lemma source_step_raises:
  assumes "source_step c u l = (Inl e, c1)"
  shows "e = OperationalError \<or> e = TypeError"
proof -
  obtain r0 c0 where ins:
    "insert_source c (unit_source u) (getcontext u) l (length (unit_source u)) = (r0, c0)"
    by (cases "insert_source c (unit_source u) (getcontext u) l (length (unit_source u))")
  then have r0: "r0 = Inl OperationalError \<or> r0 = Inl IntegrityError \<or> (\<exists>s. r0 = Inr s)"
    by (auto simp: insert_source_def next_fault_def Let_def split: list.splits bool.splits if_splits)
  obtain r2 c2 where sel: "select_sid c0 (unit_source u) (getcontext u) l = (r2, c2)"
    by (cases "select_sid c0 (unit_source u) (getcontext u) l")
  then have r2: "r2 = Inl OperationalError \<or> (\<exists>s. r2 = Inr s)"
    by (auto simp: select_sid_def next_fault_def split: list.splits bool.splits option.splits)
  from assms ins sel r0 r2 show ?thesis
    by (auto simp: source_step_def split: option.splits)
qed

lemma target_step_raises:
  assumes "target_step c u s l now = (Inl e, c1)"
  shows "e = OperationalError"
proof -
  obtain r0 c0 where ins:
    "insert_target c s (unit_target u) l (length (unit_target u)) now = (r0, c0)"
    by (cases "insert_target c s (unit_target u) l (length (unit_target u)) now")
  then have "r0 = Inl OperationalError \<or> r0 = Inl IntegrityError \<or> r0 = Inr ()"
    by (auto simp: insert_target_def next_fault_def Let_def split: list.splits bool.splits if_splits)
  with assms ins show ?thesis
    by (auto simp: target_step_def)
qed

lemma commit_raises: "commit c = (Inl e, c1) \<Longrightarrow> e = OperationalError"
  by (auto simp: commit_def next_fault_def split: list.splits bool.splits)

lemma add_unit_raises:
  assumes "add_unit c u source_lang target_lang do_commit now = (Inl e, c1)"
  shows "e = LanguageError ''undefined source language''
       \<or> e = LanguageError ''undefined target language''
       \<or> e = OperationalError \<or> e = TypeError"
proof (cases "resolve_lang (getsourcelanguage u) source_lang")
  case None
  with assms show ?thesis by (simp add: add_unit_def)
next
  case slang: (Some slang)
  show ?thesis
  proof (cases "resolve_lang (gettargetlanguage u) target_lang")
    case None
    with assms slang show ?thesis by (simp add: add_unit_def split: if_splits)
  next
    case tlang: (Some tlang)
    show ?thesis
    proof (cases "slang = [] \<or> tlang = []")
      case True
      with assms slang tlang show ?thesis by (auto simp: add_unit_def split: if_splits)
    next
      case False
      obtain ra ca where src: "source_step c u slang = (ra, ca)"
        by (cases "source_step c u slang")
      show ?thesis
      proof (cases ra)
        case (Inl e')
        with assms slang tlang False src have "e = e'"
          by (simp add: add_unit_def split: if_splits)
        with source_step_raises src Inl show ?thesis by blast
      next
        case (Inr s)
        obtain rb cb where tgt: "target_step ca u s tlang now = (rb, cb)"
          by (cases "target_step ca u s tlang now")
        obtain rc cc where com: "commit cb = (rc, cc)"
          by (cases "commit cb")
        from assms slang tlang False src Inr tgt com
        have "rb = Inl e \<or> rc = Inl e"
          by (cases rb; cases rc) (simp_all add: add_unit_def split: if_splits)
        with target_step_raises tgt commit_raises com show ?thesis by blast
      qed
    qed
  qed
qed

section \<open>The same unit again\<close>

lemma no_conflict_find:
  "sources_uniq_conflict rows t (Some x) l =
     (find (\<lambda>r. src_text r = t \<and> src_context r = Some x \<and> src_lang r = l) rows \<noteq> None)"
  by (auto simp: sources_uniq_conflict_def list_ex_iff find_None_iff)

lemma source_step_with_context:
  assumes "faults c = []" and "getcontext u = Some x"
  shows "source_step c u l =
     (case find (\<lambda>r. src_text r = unit_source u \<and> src_context r = Some x \<and> src_lang r = l)
             (sources (pending c)) of
        Some r \<Rightarrow> (Inr (src_sid r), c)
      | None \<Rightarrow>
          (Inr (new_sid (pending c)),
           c\<lparr>pending := (pending c)
                \<lparr>sources := sources (pending c) @
                    [\<lparr>src_sid = new_sid (pending c), src_text = unit_source u,
                      src_context = Some x, src_lang = l, src_length = length (unit_source u)\<rparr>],
                 sources_seq := new_sid (pending c)\<rparr>\<rparr>))"
  using assms
  by (simp add: source_step_def insert_source_def select_sid_def next_fault_none
        no_conflict_find Let_def split: option.splits)

lemma find_after:
  "find P (xs @ ys) = (case find P xs of None \<Rightarrow> find P ys | Some x \<Rightarrow> Some x)"
  by (induction xs) simp_all

lemma source_step_found:
  assumes "faults c = []" and "getcontext u = Some x" and "source_step c u l = (Inr s, c1)"
  shows "\<exists>r. find (\<lambda>r. src_text r = unit_source u \<and> src_context r = Some x \<and> src_lang r = l)
               (sources (pending c1)) = Some r \<and> src_sid r = s"
proof (cases "find (\<lambda>r. src_text r = unit_source u \<and> src_context r = Some x \<and> src_lang r = l)
               (sources (pending c))")
  case None
  with assms show ?thesis
    by (auto simp: source_step_with_context find_after)
next
  case (Some r)
  with assms show ?thesis
    by (auto simp: source_step_with_context)
qed

lemma source_step_returns:
  assumes "faults c = []" and "getcontext u = Some x"
  shows "\<exists>s c1. source_step c u l = (Inr s, c1)"
  using assms by (simp add: source_step_with_context split: option.splits)

lemma target_step_nofault:
  assumes "faults c = []"
  shows "\<exists>c1. target_step c u s l now = (Inr (), c1) \<and> faults c1 = []
            \<and> sources (pending c1) = sources (pending c)
            \<and> targets_uniq_conflict (targets (pending c1)) s (unit_target u) l"
proof (cases "targets_uniq_conflict (targets (pending c)) s (unit_target u) l")
  case True
  with assms show ?thesis by (simp add: target_step_conflict)
next
  case False
  with assms show ?thesis
    by (simp add: target_step_def insert_target_def next_fault_none Let_def
          targets_uniq_conflict_def)
qed

text \<open>
  For a unit with a context, on a connection without failures: \<^verbatim>\<open>add_unit\<close> returns,
  and a second call finds the \<open>sid\<close> of the first and a target triple that is there.
\<close>

lemma add_unit_repeated:
  assumes "faults c = []"
    and "resolve_lang (getsourcelanguage u) source_lang = Some slang" and "slang \<noteq> []"
    and "resolve_lang (gettargetlanguage u) target_lang = Some tlang" and "tlang \<noteq> []"
    and "getcontext u = Some x"
    and "add_unit c u source_lang target_lang do_commit now = (r, c1)"
  shows "r = Inr () \<and> faults c1 = []
       \<and> (\<exists>s. source_step c1 u slang = (Inr s, c1)
              \<and> targets_uniq_conflict (targets (pending c1)) s (unit_target u) tlang)"
proof -
  let ?P = "\<lambda>r. src_text r = unit_source u \<and> src_context r = Some x \<and> src_lang r = slang"
  from source_step_returns [OF assms(1,6)] obtain s ca where
    src: "source_step c u slang = (Inr s, ca)" by blast
  from source_step_frame(2) [OF src] assms(1) have fa: "faults ca = []" by simp
  from source_step_found [OF assms(1,6) src] obtain row where
    row: "find ?P (sources (pending ca)) = Some row" "src_sid row = s" by blast
  from target_step_nofault [OF fa] obtain cb where
    tgt: "target_step ca u s tlang now = (Inr (), cb)" and fb: "faults cb = []"
    and sb: "sources (pending cb) = sources (pending ca)"
    and tb: "targets_uniq_conflict (targets (pending cb)) s (unit_target u) tlang"
    by blast
  define cc where "cc = (if do_commit then cb\<lparr>committed := pending cb\<rparr> else cb)"
  have call: "add_unit c u source_lang target_lang do_commit now = (Inr (), cc)"
    using assms(2-5) src tgt commit_none [OF fb] by (simp add: add_unit_def cc_def)
  with assms(7) have r: "r = Inr ()" and c1: "c1 = cc" by simp_all
  have fc: "faults c1 = []" and sc: "sources (pending c1) = sources (pending ca)"
    and tc: "targets (pending c1) = targets (pending cb)"
    using fb sb by (simp_all add: c1 cc_def)
  from row sc have "find ?P (sources (pending c1)) = Some row" by simp
  with fc assms(6) row(2) have "source_step c1 u slang = (Inr s, c1)"
    by (simp add: source_step_with_context)
  with r fc tb tc show ?thesis by auto
qed

section \<open>What the unique indices keep\<close>

lemma insert_source_cases:
  assumes "insert_source c t ctx l n = (r, c1)"
  shows "pending c1 = pending c
       \<or> (\<not> sources_uniq_conflict (sources (pending c)) t ctx l
          \<and> targets (pending c1) = targets (pending c)
          \<and> (\<exists>row. sources (pending c1) = sources (pending c) @ [row]
                 \<and> src_text row = t \<and> src_context row = ctx \<and> src_lang row = l))"
  using assms
  by (auto simp: insert_source_def next_fault_def Let_def split: list.splits bool.splits if_splits)

lemma insert_target_cases:
  assumes "insert_target c s t l n tm = (r, c1)"
  shows "pending c1 = pending c
       \<or> (\<not> targets_uniq_conflict (targets (pending c)) s t l
          \<and> sources (pending c1) = sources (pending c)
          \<and> (\<exists>row. targets (pending c1) = targets (pending c) @ [row]
                 \<and> tgt_sid row = s \<and> tgt_text row = t \<and> tgt_lang row = l))"
  using assms
  by (auto simp: insert_target_def next_fault_def Let_def split: list.splits bool.splits if_splits)

lemma sources_unique_append:
  assumes "sources_unique rows" and "\<not> sources_uniq_conflict rows (src_text row) (src_context row) (src_lang row)"
  shows "sources_unique (rows @ [row])"
proof (cases "src_context row")
  case None
  with assms(1) show ?thesis by (simp add: sources_unique_def)
next
  case (Some x)
  with assms show ?thesis
    by (auto simp: sources_unique_def sources_uniq_conflict_def list_ex_iff)
qed

lemma targets_unique_append:
  assumes "targets_unique rows" and "\<not> targets_uniq_conflict rows (tgt_sid row) (tgt_text row) (tgt_lang row)"
  shows "targets_unique (rows @ [row])"
  using assms by (auto simp: targets_unique_def targets_uniq_conflict_def list_ex_iff)

lemma insert_source_unique:
  assumes "insert_source c t ctx l n = (r, c1)" and "store_unique (pending c)"
  shows "store_unique (pending c1)"
  using insert_source_cases [OF assms(1)] assms(2) sources_unique_append
  by (auto simp: store_unique_def)

lemma insert_target_unique:
  assumes "insert_target c s t l n tm = (r, c1)" and "store_unique (pending c)"
  shows "store_unique (pending c1)"
  using insert_target_cases [OF assms(1)] assms(2) targets_unique_append
  by (auto simp: store_unique_def)

lemma source_step_unique:
  assumes "source_step c u l = (r, c1)" and "store_unique (pending c)"
  shows "store_unique (pending c1)"
proof -
  obtain r0 c0 where ins: "insert_source c (unit_source u) (getcontext u) l (length (unit_source u)) = (r0, c0)"
    by (cases "insert_source c (unit_source u) (getcontext u) l (length (unit_source u))")
  from insert_source_unique [OF ins assms(2)] have u0: "store_unique (pending c0)" .
  obtain r2 c2 where sel: "select_sid c0 (unit_source u) (getcontext u) l = (r2, c2)"
    by (cases "select_sid c0 (unit_source u) (getcontext u) l")
  from select_sid_frame(1) [OF sel] u0 have u2: "store_unique (pending c2)" by simp
  from assms(1) ins sel have "c1 = c0 \<or> c1 = c2"
    by (auto simp: source_step_def split: sum.splits exn.splits option.splits)
  with u0 u2 show ?thesis by auto
qed

lemma target_step_unique:
  assumes "target_step c u s l now = (r, c1)" and "store_unique (pending c)"
  shows "store_unique (pending c1)"
proof -
  obtain r0 c0 where ins: "insert_target c s (unit_target u) l (length (unit_target u)) now = (r0, c0)"
    by (cases "insert_target c s (unit_target u) l (length (unit_target u)) now")
  from insert_target_unique [OF ins assms(2)] have "store_unique (pending c0)" .
  moreover from assms(1) ins have "c1 = c0"
    by (auto simp: target_step_def split: sum.splits exn.splits)
  ultimately show ?thesis by simp
qed

lemma commit_cases:
  assumes "commit c = (r, c1)"
  shows "pending c1 = pending c" and "committed c1 = committed c \<or> committed c1 = pending c"
  using assms by (auto simp: commit_def next_fault_def split: list.splits bool.splits)

lemma add_unit_trace:
  assumes "add_unit c u source_lang target_lang do_commit now = (r, c1)"
  shows "c1 = c
       \<or> (\<exists>slang ra ca. source_step c u slang = (ra, ca)
            \<and> (c1 = ca \<or> c1 = rollback ca
               \<or> (\<exists>s tlang rb cb. target_step ca u s tlang now = (rb, cb)
                     \<and> (c1 = cb \<or> c1 = rollback cb
                        \<or> (\<exists>rc cc. commit cb = (rc, cc) \<and> (c1 = cc \<or> c1 = rollback cc))))))"
proof (cases "resolve_lang (getsourcelanguage u) source_lang")
  case None
  with assms show ?thesis by (simp add: add_unit_def)
next
  case slang: (Some slang)
  show ?thesis
  proof (cases "resolve_lang (gettargetlanguage u) target_lang")
    case None
    with assms slang show ?thesis by (simp add: add_unit_def split: if_splits)
  next
    case tlang: (Some tlang)
    show ?thesis
    proof (cases "slang = [] \<or> tlang = []")
      case True
      with assms slang tlang show ?thesis by (auto simp: add_unit_def split: if_splits)
    next
      case False
      obtain ra ca where src: "source_step c u slang = (ra, ca)"
        by (cases "source_step c u slang")
      show ?thesis
      proof (cases ra)
        case (Inl e)
        with assms slang tlang False src have "c1 = ca \<or> c1 = rollback ca"
          by (simp add: add_unit_def split: if_splits)
        with src show ?thesis by blast
      next
        case (Inr s)
        obtain rb cb where tgt: "target_step ca u s tlang now = (rb, cb)"
          by (cases "target_step ca u s tlang now")
        obtain rc cc where com: "commit cb = (rc, cc)"
          by (cases "commit cb")
        from assms slang tlang False src Inr tgt com
        have "c1 = cb \<or> c1 = rollback cb \<or> c1 = cc \<or> c1 = rollback cc"
          by (cases rb; cases rc) (simp_all add: add_unit_def split: if_splits)
        with src tgt com show ?thesis by blast
      qed
    qed
  qed
qed

lemma add_unit_unique:
  assumes "add_unit c u source_lang target_lang do_commit now = (r, c1)"
    and "store_unique (committed c)" and "store_unique (pending c)"
  shows "store_unique (committed c1) \<and> store_unique (pending c1)"
proof -
  have source_kept: "store_unique (pending ca) \<and> committed ca = committed c"
    if "source_step c u slang = (ra, ca)" for slang ra ca
    using source_step_unique [OF that assms(3)] source_step_committed [OF that] by simp
  have target_kept: "store_unique (pending cb) \<and> committed cb = committed c"
    if "source_step c u slang = (ra, ca)" and "target_step ca u s tlang now = (rb, cb)"
    for slang ra ca s tlang rb cb
    using source_kept [OF that(1)] target_step_unique [OF that(2)] target_step_committed [OF that(2)]
    by simp
  have commit_kept: "store_unique (pending cc) \<and> store_unique (committed cc)"
    if "source_step c u slang = (ra, ca)" and "target_step ca u s tlang now = (rb, cb)"
      and "commit cb = (rc, cc)"
    for slang ra ca s tlang rb cb rc cc
    using target_kept [OF that(1,2)] commit_cases [OF that(3)] assms(2) by auto
  from add_unit_trace [OF assms(1)] assms(2,3) source_kept target_kept commit_kept
  show ?thesis
    by (fastforce simp: rollback_def)
qed

section \<open>A target triple that is already there (C8)\<close>

text \<open>
  C8. The storage does not fail, and the store satisfies its unique indices. First, when
  the target row that \<^verbatim>\<open>add_unit\<close> attempts to insert (the \<open>sid\<close> found for the source,
  the unit's target text, the target language) has a triple that exists already, the
  call returns without error, the \<open>IntegrityError\<close> not reaching the caller, the table of
  targets is what it was, and exactly one of its rows has the triple. Second, for a
  unit with a context, \<^verbatim>\<open>add_unit\<close> returns, and a second call for the same unit
  returns as well, leaves the targets as the first call left them, and exactly one
  target row has the triple.
\<close>

theorem add_unit_existing_target:
  assumes "faults c = []"
    and "resolve_lang (getsourcelanguage u) source_lang = Some slang" and "slang \<noteq> []"
    and "resolve_lang (gettargetlanguage u) target_lang = Some tlang" and "tlang \<noteq> []"
    and "store_unique (committed c)" and "store_unique (pending c)"
  shows "(source_step c u slang = (Inr s, c1)
          \<and> targets_uniq_conflict (targets (pending c1)) s (unit_target u) tlang \<longrightarrow>
            (\<exists>c2. add_unit c u source_lang target_lang do_commit now = (Inr (), c2)
               \<and> targets (pending c2) = targets (pending c)
               \<and> length (filter (\<lambda>r. tgt_sid r = s \<and> tgt_text r = unit_target u
                                      \<and> tgt_lang r = tlang) (targets (pending c2))) = 1))
       \<and> (getcontext u = Some x
          \<and> add_unit c u source_lang target_lang do_commit now = (r, c') \<longrightarrow>
            r = Inr ()
            \<and> (\<exists>s' c''. add_unit c' u source_lang target_lang do_commit now' = (Inr (), c'')
                  \<and> targets (pending c'') = targets (pending c')
                  \<and> length (filter (\<lambda>r. tgt_sid r = s' \<and> tgt_text r = unit_target u
                                         \<and> tgt_lang r = tlang) (targets (pending c''))) = 1))"
proof (rule conjI; rule impI)
  assume "source_step c u slang = (Inr s, c1)
          \<and> targets_uniq_conflict (targets (pending c1)) s (unit_target u) tlang"
  moreover from assms(7) have "targets_unique (targets (pending c))"
    by (simp add: store_unique_def)
  ultimately
  show "\<exists>c2. add_unit c u source_lang target_lang do_commit now = (Inr (), c2)
               \<and> targets (pending c2) = targets (pending c)
               \<and> length (filter (\<lambda>r. tgt_sid r = s \<and> tgt_text r = unit_target u
                                      \<and> tgt_lang r = tlang) (targets (pending c2))) = 1"
    using add_unit_target_there [OF assms(1-5)] by blast
next
  assume first: "getcontext u = Some x
          \<and> add_unit c u source_lang target_lang do_commit now = (r, c')"
  from add_unit_repeated [OF assms(1-5)] first obtain s' where
    returned: "r = Inr ()" and nofault: "faults c' = []" and
    found: "source_step c' u slang = (Inr s', c')" and
    there: "targets_uniq_conflict (targets (pending c')) s' (unit_target u) tlang"
    by blast
  from add_unit_unique [OF _ assms(6,7)] first have "targets_unique (targets (pending c'))"
    by (auto simp: store_unique_def)
  from add_unit_target_there [OF nofault assms(2-5) found there this, of do_commit now']
  obtain c'' where "add_unit c' u source_lang target_lang do_commit now' = (Inr (), c'')"
    and "targets (pending c'') = targets (pending c')"
    and "length (filter (\<lambda>r. tgt_sid r = s' \<and> tgt_text r = unit_target u
                                         \<and> tgt_lang r = tlang) (targets (pending c''))) = 1"
    by blast
  with returned
  show "r = Inr ()
            \<and> (\<exists>s' c''. add_unit c' u source_lang target_lang do_commit now' = (Inr (), c'')
                  \<and> targets (pending c'') = targets (pending c')
                  \<and> length (filter (\<lambda>r. tgt_sid r = s' \<and> tgt_text r = unit_target u
                                         \<and> tgt_lang r = tlang) (targets (pending c''))) = 1)"
    by blast
qed

theorem add_unit_existing_target_witness:
  "faults fresh_connection = []
   \<and> store_unique (committed fresh_connection) \<and> store_unique (pending fresh_connection)
   \<and> add_unit fresh_connection (hello_unit (Some [])) (Some ''en'') (Some ''fr'') True 0 =
       (Inr (), hello_connection)
   \<and> source_step hello_connection (hello_unit (Some [])) ''en'' = (Inr 1, hello_connection)
   \<and> targets_uniq_conflict (targets (pending hello_connection)) 1 ''Bonjour le monde'' ''fr''
   \<and> (\<exists>s c2. add_unit hello_connection (hello_unit (Some [])) (Some ''en'') (Some ''fr'') True 7 =
               (Inr (), c2)
          \<and> targets (pending c2) = targets (pending hello_connection)
          \<and> length (filter (\<lambda>r. tgt_sid r = s \<and> tgt_text r = ''Bonjour le monde''
                                 \<and> tgt_lang r = ''fr'') (targets (pending c2))) = 1)
   \<and> (\<exists>c2. add_unit hello_connection (hello_unit (Some [])) (Some ''en'') (Some ''fr'') True 7 =
               (Inr (), c2)
          \<and> targets (pending c2) = targets (pending hello_connection)
          \<and> length (filter (\<lambda>r. tgt_sid r = 1 \<and> tgt_text r = ''Bonjour le monde''
                                 \<and> tgt_lang r = ''fr'') (targets (pending c2))) = 1)"
proof -
  have nofault: "faults fresh_connection = []" "faults hello_connection = []"
    by code_simp+
  have slang: "resolve_lang (getsourcelanguage (hello_unit (Some []))) (Some ''en'') = Some ''en''"
    and tlang: "resolve_lang (gettargetlanguage (hello_unit (Some []))) (Some ''fr'') = Some ''fr''"
    by code_simp+
  have indices: "store_unique (committed fresh_connection)" "store_unique (pending fresh_connection)"
    "store_unique (committed hello_connection)" "store_unique (pending hello_connection)"
    by code_simp+
  have first: "add_unit fresh_connection (hello_unit (Some [])) (Some ''en'') (Some ''fr'') True 0 =
       (Inr (), hello_connection)"
    by code_simp
  have found: "source_step hello_connection (hello_unit (Some [])) ''en'' = (Inr 1, hello_connection)"
    by code_simp
  have there: "targets_uniq_conflict (targets (pending hello_connection)) 1
                 (unit_target (hello_unit (Some []))) ''fr''"
    by code_simp
  have wording: "unit_target (hello_unit (Some [])) = ''Bonjour le monde''"
    "getcontext (hello_unit (Some [])) = Some []"
    by (simp_all add: hello_unit_def)
  from add_unit_existing_target
         [OF nofault(1) slang _ tlang _ indices(1,2),
          of 0 fresh_connection True 0 "[]" "Inr ()" hello_connection 7]
       add_unit_existing_target
         [OF nofault(2) slang _ tlang _ indices(3,4),
          of 1 hello_connection True 7 "[]" "Inr ()" hello_connection 7]
       nofault indices first found there wording
  show ?thesis by simp
qed

section \<open>A source without context, twice (C2)\<close>

text \<open>
  C2, at the input where the code fails it. The unit of the round trip with no context
  (\<^verbatim>\<open>getcontext()\<close> is \<^verbatim>\<open>None\<close>) is added twice to a new database. The second call returns
  without error, and there are two source rows with the same text, context and language,
  with the identities 1 and 2; the second target row is owned by the second.
\<close>

theorem add_unit_null_context_twice:
  "fst hello_null_again = Inr ()
   \<and> map (\<lambda>r. (src_sid r, src_text r, src_context r, src_lang r))
        (sources (pending (snd hello_null_again))) =
        [(1, ''Hello world'', None, ''en''), (2, ''Hello world'', None, ''en'')]
   \<and> map (\<lambda>r. (tgt_sid r, tgt_text r, tgt_lang r)) (targets (pending (snd hello_null_again))) =
        [(1, ''Bonjour le monde'', ''fr''), (2, ''Bonjour le monde'', ''fr'')]
   \<and> \<not> spec_sources_unique (sources (pending (snd hello_null_again)))"
  by code_simp

section \<open>A list of languages (C1)\<close>

text \<open>With one language on each side the query selects the candidates of the specification.\<close>

lemma select_pairs_single_tag:
  "select_pairs db (join_langs (Tags [slang])) (join_langs (Tags [tlang])) lo hi =
     spec_candidates db [slang] [tlang] lo hi"
  by (simp add: select_pairs_def spec_candidates_def join_langs_def)

text \<open>
  C1, at the input where the code fails it. The store holds the pair of the round trip,
  from \<open>en\<close> to \<open>fr\<close>, with the source length 11 inside the window \<open>[9, 14]\<close>. For the
  source languages \<open>[en, de]\<close> the bound value is the string \<open>en,de\<close>, the query selects
  no row, and \<^verbatim>\<open>translate_unit\<close> returns the empty sequence, while the candidates of the
  specification contain the pair.
\<close>

theorem translate_unit_language_list:
  "join_langs (Tags [''en'', ''de'']) = ''en,de''
   \<and> min_levenshtein_length (length ''Hello world'') 75 = 9
   \<and> max_levenshtein_length (length ''Hello world'') 75 1000 = Inr 14
   \<and> select_pairs (pending hello_connection) (join_langs (Tags [''en'', ''de'']))
        (join_langs (Tags [''fr''])) 9 14 = []
   \<and> spec_candidates (pending hello_connection) [''en'', ''de''] [''fr''] 9 14 =
        [\<lparr>row_source = ''Hello world'', row_target = ''Bonjour le monde'',
          row_context = Some [], row_slang = ''en'', row_tlang = ''fr''\<rparr>]
   \<and> translate_unit (default_tmdb exact_comparer) hello_connection ''Hello world''
        (Tags [''en'', ''de'']) (Tags [''fr'']) = (Inr [], hello_connection)"
  by code_simp

section \<open>The round trip (C9)\<close>






end
